theory Spec2Isabelle
  imports Main
begin

section \<open>Data model\<close>

text \<open>
  Times are UTC timestamps in whole seconds (\<^verbatim>\<open>datetime.now(timezone.utc)\<close>); every
  function that reads the clock takes the current time as its argument \<open>now\<close>.
\<close>

type_synonym timestamp = int

text \<open>
  The strings stored under \<^verbatim>\<open>password_hash\<close>, seen the way
  \<^verbatim>\<open>CryptContext(schemes=["bcrypt"])\<close> of passlib sees them. A string is a well-formed
  bcrypt digest, kept symbolic here as its salt and the bytes of the secret that went into
  the digest (bcrypt reads the first 72 bytes of a secret); or it starts like a bcrypt hash
  and does not parse as one; or no configured scheme identifies it.
\<close>

datatype hash_string =
    BcryptHash (hash_salt: string) (hash_secret: string)
  | MalformedBcrypt string
  | UnidentifiedHash string

text \<open>
  A document of the \<^verbatim>\<open>user\<close> collection. The field \<open>u_k\<close> is the key \<^verbatim>\<open>k\<close> of the
  document (\<open>u_id\<close> is \<^verbatim>\<open>_id\<close>); an absent key is \<open>None\<close>. The handlers store
  \<^verbatim>\<open>None\<close> under the two reset keys only, where the queries treat it as they treat an
  absent key.
\<close>

record user =
  u_id :: nat
  u_name :: string
  u_email :: string
  u_password_hash :: hash_string
  u_role :: "string option"
  u_created_at :: timestamp
  u_reset_token :: "string option"
  u_reset_token_expires_at :: "timestamp option"
  u_updated_at :: "timestamp option"

type_synonym collection = "user list"

text \<open>
  Everything the handlers raise: the HTTP exceptions of the application, the three errors
  of passlib (\<^verbatim>\<open>UnknownHashError\<close>, the \<^verbatim>\<open>ValueError\<close> of a hash that does not parse,
  \<^verbatim>\<open>PasswordValueError\<close> for a secret it refuses), and the \<^verbatim>\<open>ValidationError\<close> of
  pydantic.
\<close>

datatype exn =
    HTTPException nat string "(string \<times> string) list"
  | UnknownHashError
  | ValueError
  | PasswordValueError
  | ValidationError

text \<open>\<^verbatim>\<open>app/config.py\<close>: the values read from the environment, and the routes.\<close>

record config =
  SECRET_KEY :: string
  ALGORITHM :: string
  ACCESS_TOKEN_EXPIRE_MINUTES :: int

definition LOGIN_ROUTE :: string where "LOGIN_ROUTE = ''/login''"
definition SIGNUP_ROUTE :: string where "SIGNUP_ROUTE = ''/signup''"
definition USER_MANAGEMENT_ROUTE :: string where "USER_MANAGEMENT_ROUTE = ''/user_management''"
definition FORGOT_PASSWORD_ROUTE :: string where "FORGOT_PASSWORD_ROUTE = ''/forgot-password''"
definition RESET_PASSWORD_ROUTE :: string where "RESET_PASSWORD_ROUTE = ''/reset-password''"

section \<open>The user collection\<close>

text \<open>
  The pymongo calls the handlers make, on the collection as the list of its documents in
  natural order. A filter is a predicate on documents and a \<^verbatim>\<open>$set\<close> is a function on
  them; \<open>find_one\<close>, \<open>update_one\<close> and \<open>delete_one\<close> act on the first document that
  matches. Failures of the driver itself are outside the model.
\<close>

definition find_one :: "(user \<Rightarrow> bool) \<Rightarrow> collection \<Rightarrow> user option" where
  "find_one flt users = find flt users"

fun update_first :: "(user \<Rightarrow> bool) \<Rightarrow> (user \<Rightarrow> user) \<Rightarrow> collection \<Rightarrow> collection" where
  "update_first flt upd [] = []"
| "update_first flt upd (d # ds) =
     (if flt d then upd d # ds else d # update_first flt upd ds)"

fun delete_first :: "(user \<Rightarrow> bool) \<Rightarrow> collection \<Rightarrow> collection" where
  "delete_first flt [] = []"
| "delete_first flt (d # ds) = (if flt d then ds else d # delete_first flt ds)"

text \<open>The second component is \<^verbatim>\<open>modified_count\<close>: a document set to what it already
  was is matched but not modified.\<close>

definition update_one ::
  "(user \<Rightarrow> bool) \<Rightarrow> (user \<Rightarrow> user) \<Rightarrow> collection \<Rightarrow> collection \<times> nat" where
  "update_one flt upd users =
     (update_first flt upd users,
      case find flt users of
        None \<Rightarrow> 0
      | Some d \<Rightarrow> (if upd d = d then 0 else 1))"

text \<open>The second component is \<^verbatim>\<open>deleted_count\<close>.\<close>

definition delete_one :: "(user \<Rightarrow> bool) \<Rightarrow> collection \<Rightarrow> collection \<times> nat" where
  "delete_one flt users =
     (delete_first flt users, case find flt users of None \<Rightarrow> 0 | Some d \<Rightarrow> 1)"

text \<open>The driver gives an inserted document an \<^verbatim>\<open>_id\<close> no other document has.\<close>

definition new_object_id :: "collection \<Rightarrow> nat" where
  "new_object_id users = Suc (fold max (map u_id users) 0)"

definition insert_one :: "user \<Rightarrow> collection \<Rightarrow> collection" where
  "insert_one d users = users @ [d\<lparr>u_id := new_object_id users\<rparr>]"

section \<open>\<^verbatim>\<open>app/auth.py\<close>\<close>

subsection \<open>Password hashing\<close>

text \<open>
  Strings are the bytes of their UTF-8 encoding; \<open>py_len\<close> is Python's \<^verbatim>\<open>len\<close> of the
  string, the number of its code points (the bytes that are not continuation bytes).
\<close>

definition py_len :: "string \<Rightarrow> nat" where
  "py_len s = length (filter (\<lambda>c. \<not> (128 \<le> (of_char c :: nat) \<and> (of_char c :: nat) < 192)) s)"

definition MAX_PASSWORD_SIZE :: nat where "MAX_PASSWORD_SIZE = 4096"

text \<open>
  What the bcrypt handler of passlib does with a secret before it computes a digest:
  \<^verbatim>\<open>validate_secret\<close> refuses a secret of more than 4096 characters, a secret with a NUL
  byte is refused, and of an accepted secret the first 72 bytes are what the digest
  depends on.
\<close>

definition bcrypt_secret :: "string \<Rightarrow> exn + string" where
  "bcrypt_secret secret =
     (if py_len secret > MAX_PASSWORD_SIZE then Inl PasswordValueError
      else if CHR 0x00 \<in> set secret then Inl PasswordValueError
      else Inr (take 72 secret))"

text \<open>
  \<^verbatim>\<open>pwd_context.verify\<close>: a hash no scheme of the context identifies raises
  \<^verbatim>\<open>UnknownHashError\<close>; then the handler validates the size of the secret, parses the
  hash, and compares the digest of the secret with the one in the hash.
  \<^verbatim>\<open>pwd_context.hash\<close> draws a fresh salt, here the argument \<open>salt\<close>.
\<close>

definition pwd_context_verify :: "string \<Rightarrow> hash_string \<Rightarrow> exn + bool" where
  "pwd_context_verify secret h =
     (case h of
        UnidentifiedHash s \<Rightarrow> Inl UnknownHashError
      | MalformedBcrypt s \<Rightarrow>
          if py_len secret > MAX_PASSWORD_SIZE then Inl PasswordValueError
          else Inl ValueError
      | BcryptHash salt digested \<Rightarrow>
          (case bcrypt_secret secret of
             Inl e \<Rightarrow> Inl e
           | Inr bytes \<Rightarrow> Inr (bytes = digested)))"

definition pwd_context_hash :: "string \<Rightarrow> string \<Rightarrow> exn + hash_string" where
  "pwd_context_hash salt secret =
     (case bcrypt_secret secret of
        Inl e \<Rightarrow> Inl e
      | Inr bytes \<Rightarrow> Inr (BcryptHash salt bytes))"

definition verify_password :: "string \<Rightarrow> hash_string \<Rightarrow> exn + bool" where
  "verify_password plain_password hashed_password =
     pwd_context_verify plain_password hashed_password"

definition get_password_hash :: "string \<Rightarrow> string \<Rightarrow> exn + hash_string" where
  "get_password_hash salt password = pwd_context_hash salt password"

subsection \<open>Bearer tokens\<close>

text \<open>
  A JSON value as the \<^verbatim>\<open>str\<close> field of a pydantic model sorts it: a string, null, or a
  value of another kind, which the field refuses.
\<close>

datatype json = JString string | JNull | JRefused

text \<open>
  The claims of a token: \<^verbatim>\<open>sub\<close>, \<^verbatim>\<open>role\<close> and \<^verbatim>\<open>exp\<close>, each possibly absent. The
  role may be any JSON value. A subject is a string: \<^verbatim>\<open>jwt.decode\<close> raises on any other.
\<close>

record payload =
  p_sub :: "string option"
  p_role :: "json option"
  p_exp :: "timestamp option"

text \<open>
  The strings a request carries as its token, seen the way \<^verbatim>\<open>jose.jwt\<close> sees them: the
  compact serialisation of claims signed with a key under an algorithm (the signature kept
  symbolic), or any other string, which does not parse as a JWT.
\<close>

datatype token =
    Jwt (signing_key: string) (signing_alg: string) (claims: payload)
  | Opaque string

datatype jwt_error = JWTError | ExpiredSignatureError

definition jwt_encode :: "payload \<Rightarrow> string \<Rightarrow> string \<Rightarrow> token" where
  "jwt_encode to_encode key algorithm = Jwt key algorithm to_encode"

text \<open>\<^verbatim>\<open>jwt.decode\<close>: the algorithm of the token must be one of \<open>algorithms\<close>, the signature
  must verify under \<open>key\<close>, and an \<^verbatim>\<open>exp\<close> claim must not lie before the current time.\<close>

definition jwt_decode :: "token \<Rightarrow> string \<Rightarrow> string list \<Rightarrow> timestamp \<Rightarrow> jwt_error + payload" where
  "jwt_decode t key algorithms now =
     (case t of
        Opaque s \<Rightarrow> Inl JWTError
      | Jwt k a c \<Rightarrow>
          if a \<notin> set algorithms then Inl JWTError
          else if k \<noteq> key then Inl JWTError
          else (case p_exp c of
                  None \<Rightarrow> Inr c
                | Some e \<Rightarrow> if e < now then Inl ExpiredSignatureError else Inr c))"

text \<open>\<open>expires_delta\<close> is in seconds.\<close>

definition create_access_token :: "config \<Rightarrow> payload \<Rightarrow> int option \<Rightarrow> timestamp \<Rightarrow> token" where
  "create_access_token cfg data expires_delta now =
     (let expires_delta' =
            (case expires_delta of
               None \<Rightarrow> 60 * ACCESS_TOKEN_EXPIRE_MINUTES cfg
             | Some d \<Rightarrow> d);
          expire = now + expires_delta';
          to_encode = data\<lparr>p_exp := Some expire\<rparr>
      in jwt_encode to_encode (SECRET_KEY cfg) (ALGORITHM cfg))"

subsection \<open>Resolving the current user\<close>

definition credentials_exception :: exn where
  "credentials_exception =
     HTTPException 401 ''Not authenticated'' [(''WWW-Authenticate'', ''Bearer'')]"

text \<open>Python's \<^verbatim>\<open>not x\<close> on an optional token string: \<^verbatim>\<open>None\<close> and the empty string.\<close>

fun falsy :: "token option \<Rightarrow> bool" where
  "falsy None = True"
| "falsy (Some (Opaque s)) = (s = [])"
| "falsy (Some (Jwt k a c)) = False"

text \<open>
  \<^verbatim>\<open>app/models.py\<close>: \<^verbatim>\<open>TokenData\<close>. Building one validates its fields: a role that is
  present and neither a string nor null raises \<^verbatim>\<open>ValidationError\<close>. The one place that
  builds it passes a username that is a string.
\<close>

record token_data =
  td_username :: string
  td_role :: "string option"

definition TokenData :: "string \<Rightarrow> json option \<Rightarrow> exn + token_data" where
  "TokenData username role =
     (case role of
        None \<Rightarrow> Inr \<lparr>td_username = username, td_role = None\<rparr>
      | Some JNull \<Rightarrow> Inr \<lparr>td_username = username, td_role = None\<rparr>
      | Some (JString r) \<Rightarrow> Inr \<lparr>td_username = username, td_role = Some r\<rparr>
      | Some JRefused \<Rightarrow> Inl ValidationError)"

text \<open>The calls a handler sends to the user collection, in order: a \<^verbatim>\<open>find_one\<close> by
  email, a \<^verbatim>\<open>find_one\<close> by reset token and time, and an \<^verbatim>\<open>update_one\<close> by \<^verbatim>\<open>_id\<close> with
  the keys of its \<^verbatim>\<open>$set\<close>.\<close>

datatype store_call =
    FindByEmail string
  | FindByResetToken string timestamp
  | UpdateById nat "string list"

text \<open>
  \<open>cookie_token\<close> is \<^verbatim>\<open>request.cookies.get("access_token")\<close> and \<open>token\<close> is what
  \<^verbatim>\<open>oauth2_scheme\<close> reads from the authorization header. The result comes with the
  calls made on the way. Both raises of the \<^verbatim>\<open>try\<close> block, the one for a missing
  subject and the one for a \<^verbatim>\<open>JWTError\<close>, raise \<open>credentials_exception\<close>; the
  \<^verbatim>\<open>ValidationError\<close> of \<open>TokenData\<close> is not a \<^verbatim>\<open>JWTError\<close> and passes through.
\<close>

definition get_current_user ::
  "config \<Rightarrow> timestamp \<Rightarrow> token option \<Rightarrow> token option \<Rightarrow> collection
     \<Rightarrow> (exn + user) \<times> store_call list" where
  "get_current_user cfg now cookie_token token users =
     (let jwt_token = (if falsy cookie_token \<and> \<not> falsy token then token else cookie_token)
      in if falsy jwt_token then (Inl credentials_exception, [])
         else (case jwt_token of
                 None \<Rightarrow> (Inl credentials_exception, [])
               | Some t \<Rightarrow>
                   (case jwt_decode t (SECRET_KEY cfg) [ALGORITHM cfg] now of
                      Inl e \<Rightarrow> (Inl credentials_exception, [])
                    | Inr payload \<Rightarrow>
                        (case p_sub payload of
                           None \<Rightarrow> (Inl credentials_exception, [])
                         | Some username \<Rightarrow>
                             (case TokenData username (p_role payload) of
                                Inl e \<Rightarrow> (Inl e, [])
                              | Inr token_data \<Rightarrow>
                                  (case find_one (\<lambda>u. u_email u = td_username token_data)
                                          users of
                                     None \<Rightarrow>
                                       (Inl credentials_exception,
                                        [FindByEmail (td_username token_data)])
                                   | Some user \<Rightarrow>
                                       (Inr user,
                                        [FindByEmail (td_username token_data)])))))))"

text \<open>A document of the collection always carries its \<^verbatim>\<open>_id\<close>, so it is never the empty
  dictionary and \<^verbatim>\<open>not current_user\<close> is false.\<close>

definition get_current_active_user :: "user \<Rightarrow> exn + user" where
  "get_current_active_user current_user = Inr current_user"

definition verify_admin :: "user \<Rightarrow> exn + user" where
  "verify_admin current_user =
     (if u_role current_user \<noteq> Some ''admin''
      then Inl (HTTPException 403 ''Not enough permissions'' [])
      else Inr current_user)"

text \<open>\<^verbatim>\<open>Depends(verify_admin)\<close>: the chain of dependencies as the framework resolves it,
  each raising past the ones that depend on it.\<close>

definition depends_verify_admin ::
  "config \<Rightarrow> timestamp \<Rightarrow> token option \<Rightarrow> token option \<Rightarrow> collection \<Rightarrow> exn + user" where
  "depends_verify_admin cfg now cookie_token token users =
     (case fst (get_current_user cfg now cookie_token token users) of
        Inl e \<Rightarrow> Inl e
      | Inr current_user \<Rightarrow>
          (case get_current_active_user current_user of
             Inl e \<Rightarrow> Inl e
           | Inr active_user \<Rightarrow> verify_admin active_user))"

section \<open>\<^verbatim>\<open>app/routes/auth_routes.py\<close>\<close>

text \<open>
  What the caller sees of a handler that answers with a redirect: the status code, the
  target, and the flash message the handler left in the session.
\<close>

record response =
  status_code :: nat
  url :: string
  flash :: "string option"

text \<open>
  \<^verbatim>\<open>RedirectResponse\<close> percent-encodes its target: every byte that is not a letter, a
  digit, one of \<^verbatim>\<open>_.-~\<close> or one of the characters it keeps as safe becomes \<^verbatim>\<open>%XX\<close>.
\<close>

definition unreserved :: string where
  "unreserved = ''ABCDEFGHIJKLMNOPQRSTUVWXYZabcdefghijklmnopqrstuvwxyz0123456789_.-~''"

definition redirect_safe :: string where
  "redirect_safe = '':/%#?=@[]!$&'' @ [CHR 0x27] @ ''()*+,;''"

definition hex_digit :: "nat \<Rightarrow> char" where
  "hex_digit n = ''0123456789ABCDEF'' ! (n mod 16)"

definition quote :: "string \<Rightarrow> string" where
  "quote s =
     concat (map (\<lambda>c. if c \<in> set unreserved \<or> c \<in> set redirect_safe then [c]
                        else [CHR ''%'', hex_digit (of_char c div 16), hex_digit (of_char c)])
               s)"

text \<open>A redirect to \<open>target\<close>, with the flash message \<open>msg\<close> left in the session.\<close>

definition redirect :: "string \<Rightarrow> nat \<Rightarrow> string \<Rightarrow> response" where
  "redirect target code msg =
     \<lparr>status_code = code, url = quote target, flash = Some msg\<rparr>"

text \<open>
  \<open>salt\<close> is the salt the hasher draws and \<open>now\<close> the time of the insert. The result is
  the collection after the call, and the response or the exception that ended the call:
  the password is hashed outside the \<^verbatim>\<open>try\<close>, so what the hasher raises leaves the handler
  before the insert.
\<close>

definition post_signup ::
  "string \<Rightarrow> string \<Rightarrow> string \<Rightarrow> string \<Rightarrow> string \<Rightarrow> timestamp \<Rightarrow> collection
     \<Rightarrow> collection \<times> (exn + response)" where
  "post_signup fullname email password confirm_password salt now users =
     (if password \<noteq> confirm_password
      then (users, Inr (redirect SIGNUP_ROUTE 302 ''Passwords do not match.''))
      else if find_one (\<lambda>u. u_email u = email) users \<noteq> None
      then (users, Inr (redirect SIGNUP_ROUTE 302 ''Email already registered.''))
      else
        (let assigned_role = ''user''
         in case get_password_hash salt password of
              Inl e \<Rightarrow> (users, Inl e)
            | Inr password_hash \<Rightarrow>
                (insert_one
                   \<lparr>u_id = 0, u_name = fullname, u_email = email,
                    u_password_hash = password_hash, u_role = Some assigned_role,
                    u_created_at = now, u_reset_token = None,
                    u_reset_token_expires_at = None, u_updated_at = None\<rparr> users,
                 Inr (redirect LOGIN_ROUTE 302
                        ''Account created successfully! Please log in.''))))"

text \<open>\<^verbatim>\<open>POST /token\<close>: the token and its type, or what was raised. An exception of
  \<open>verify_password\<close> is not caught.\<close>

definition login_for_api_token ::
  "config \<Rightarrow> string \<Rightarrow> string \<Rightarrow> timestamp \<Rightarrow> collection \<Rightarrow> exn + token \<times> string" where
  "login_for_api_token cfg username password now users =
     (let incorrect = HTTPException 401 ''Incorrect username or password''
                        [(''WWW-Authenticate'', ''Bearer'')]
      in case find_one (\<lambda>u. u_email u = username) users of
           None \<Rightarrow> Inl incorrect
         | Some user \<Rightarrow>
             (case verify_password password (u_password_hash user) of
                Inl e \<Rightarrow> Inl e
              | Inr ok \<Rightarrow>
                  if \<not> ok then Inl incorrect
                  else
                    (let access_token_expires = 60 * ACCESS_TOKEN_EXPIRE_MINUTES cfg;
                         access_token =
                           create_access_token cfg
                             \<lparr>p_sub = Some username,
                              p_role =
                                Some (JString (case u_role user of
                                                 None \<Rightarrow> ''user''
                                               | Some r \<Rightarrow> r)),
                              p_exp = None\<rparr>
                             (Some access_token_expires) now
                     in Inr (access_token, ''bearer''))))"

text \<open>\<open>reset_token\<close> is the value \<^verbatim>\<open>secrets.token_urlsafe(32)\<close> draws; the reset link is
  only logged.\<close>

definition process_forgot_password ::
  "string \<Rightarrow> string \<Rightarrow> timestamp \<Rightarrow> collection \<Rightarrow> collection \<times> response" where
  "process_forgot_password email reset_token now users =
     (let users' =
            (case find_one (\<lambda>u. u_email u = email) users of
               None \<Rightarrow> users
             | Some user \<Rightarrow>
                 (let expires_at = now + 3600
                  in fst (update_one (\<lambda>u. u_email u = email)
                            (\<lambda>u. u\<lparr>u_reset_token := Some reset_token,
                                   u_reset_token_expires_at := Some expires_at,
                                   u_updated_at := Some now\<rparr>) users)))
      in (users',
          redirect LOGIN_ROUTE 302
            ''If an account with that email exists, instructions to reset your password have been sent.''))"

text \<open>The filter of the lookup: the stored token equals the one supplied, and the stored
  expiry is a time after \<open>now\<close> (\<^verbatim>\<open>$gt\<close> matches no absent or null field).\<close>

definition reset_filter :: "string \<Rightarrow> timestamp \<Rightarrow> user \<Rightarrow> bool" where
  "reset_filter token now u =
     (u_reset_token u = Some token \<and>
      (case u_reset_token_expires_at u of None \<Rightarrow> False | Some e \<Rightarrow> now < e))"

text \<open>The keys of the \<^verbatim>\<open>$set\<close> of the one update a reset makes.\<close>

definition reset_keys :: "string list" where
  "reset_keys = [''password_hash'', ''reset_token'', ''reset_token_expires_at'', ''updated_at'']"

text \<open>
  The result is the collection after the call, the response or the exception that ended
  the call, and the calls sent to the collection. The new password is hashed after the
  lookup and before the update.
\<close>

definition reset_password_post ::
  "string \<Rightarrow> string \<Rightarrow> string \<Rightarrow> string \<Rightarrow> timestamp \<Rightarrow> collection
     \<Rightarrow> collection \<times> (exn + response) \<times> store_call list" where
  "reset_password_post token new_password confirm_password salt now users =
     (if new_password \<noteq> confirm_password
      then (users,
            Inr (redirect (RESET_PASSWORD_ROUTE @ ''?token='' @ token) 302
                   ''Passwords do not match.''),
            [])
      else
        (case find_one (reset_filter token now) users of
           None \<Rightarrow>
             (users,
              Inr (redirect FORGOT_PASSWORD_ROUTE 302
                     ''Invalid or expired password reset token.''),
              [FindByResetToken token now])
         | Some user \<Rightarrow>
             (case get_password_hash salt new_password of
                Inl e \<Rightarrow> (users, Inl e, [FindByResetToken token now])
              | Inr new_password_hash \<Rightarrow>
                  (fst (update_one (\<lambda>u. u_id u = u_id user)
                          (\<lambda>u. u\<lparr>u_password_hash := new_password_hash,
                                 u_reset_token := None,
                                 u_reset_token_expires_at := None,
                                 u_updated_at := Some now\<rparr>) users),
                   Inr (redirect LOGIN_ROUTE 302
                          ''Your password has been reset successfully. Please log in.''),
                   [FindByResetToken token now, UpdateById (u_id user) reset_keys]))))"

section \<open>\<^verbatim>\<open>app/routes/user_routes.py\<close>\<close>

text \<open>The handlers below run behind \<^verbatim>\<open>Depends(verify_admin)\<close>; \<open>current_user\<close> is the
  document that dependency returned.\<close>

definition update_user ::
  "string \<Rightarrow> user \<Rightarrow> string \<Rightarrow> string \<Rightarrow> string \<Rightarrow> timestamp \<Rightarrow> collection
     \<Rightarrow> collection \<times> response" where
  "update_user email current_user name new_email role now users =
     (let role' = (if role \<notin> set [''user'', ''admin''] then ''user'' else role)
      in if email \<noteq> new_email \<and> find_one (\<lambda>u. u_email u = new_email) users \<noteq> None
         then (users,
               redirect (''/edit-user/'' @ email) 303
                 ''New email already exists for another user.'')
         else
           (let (users', modified_count) =
                  update_one (\<lambda>u. u_email u = email)
                    (\<lambda>u. u\<lparr>u_name := name, u_email := new_email, u_role := Some role',
                           u_updated_at := Some now\<rparr>) users
            in (users',
                redirect USER_MANAGEMENT_ROUTE 303
                  (if modified_count > 0 then ''User updated successfully.''
                   else ''No changes made or user not found.''))))"

definition assign_admin ::
  "string \<Rightarrow> user \<Rightarrow> timestamp \<Rightarrow> collection \<Rightarrow> collection \<times> response" where
  "assign_admin email current_user now users =
     (if email = u_email current_user
      then (users, redirect USER_MANAGEMENT_ROUTE 303 ''You cannot change your own role.'')
      else
        (let (users', modified_count) =
               update_one (\<lambda>u. u_email u = email)
                 (\<lambda>u. u\<lparr>u_role := Some ''admin'', u_updated_at := Some now\<rparr>) users
         in (users',
             redirect USER_MANAGEMENT_ROUTE 303
               (if modified_count > 0
                then ''User '' @ email @ '' promoted to admin successfully.''
                else ''Failed to update user role or user not found.''))))"

definition delete_user :: "string \<Rightarrow> user \<Rightarrow> collection \<Rightarrow> collection \<times> response" where
  "delete_user email current_user users =
     (if email = u_email current_user
      then (users, redirect USER_MANAGEMENT_ROUTE 303 ''You cannot delete your own account.'')
      else
        (let (users', deleted_count) = delete_one (\<lambda>u. u_email u = email) users
         in (users',
             redirect USER_MANAGEMENT_ROUTE 303
               (if deleted_count > 0 then ''User '' @ email @ '' deleted successfully.''
                else ''User '' @ email @ '' not found.''))))"

section \<open>Predicates of the statements\<close>

text \<open>The role of a document is one of the two roles of the data model.\<close>

definition valid_role :: "user \<Rightarrow> bool" where
  "valid_role u = (u_role u = Some ''user'' \<or> u_role u = Some ''admin'')"

definition role_invariant :: "collection \<Rightarrow> bool" where
  "role_invariant users = list_all valid_role users"

text \<open>The role \<open>update_user\<close> stores for a submitted one.\<close>

definition coerced_role :: "string \<Rightarrow> string" where
  "coerced_role role = (if role = ''user'' \<or> role = ''admin'' then role else ''user'')"

text \<open>No two documents of a collection share an \<^verbatim>\<open>_id\<close>, as the database guarantees.\<close>

definition unique_ids :: "collection \<Rightarrow> bool" where
  "unique_ids users = distinct (map u_id users)"

text \<open>At most one document holds the reset token.\<close>

definition token_unique :: "string \<Rightarrow> collection \<Rightarrow> bool" where
  "token_unique token users =
     (length (filter (\<lambda>u. u_reset_token u = Some token) users) \<le> 1)"

text \<open>The two answers of \<open>reset_password_post\<close> that matter: it reset the password, or
  it refused the token.\<close>

definition reset_succeeded :: "collection \<times> (exn + response) \<times> store_call list \<Rightarrow> bool" where
  "reset_succeeded r =
     (fst (snd r) =
        Inr (redirect LOGIN_ROUTE 302
               ''Your password has been reset successfully. Please log in.''))"

definition invalid_or_expired :: response where
  "invalid_or_expired =
     redirect FORGOT_PASSWORD_ROUTE 302 ''Invalid or expired password reset token.''"

text \<open>A document after the one update of a successful reset: the new hash, and the token
  and its expiry cleared.\<close>

definition consumed :: "hash_string \<Rightarrow> timestamp \<Rightarrow> user \<Rightarrow> user" where
  "consumed h now u =
     u\<lparr>u_password_hash := h, u_reset_token := None, u_reset_token_expires_at := None,
       u_updated_at := Some now\<rparr>"

text \<open>A request presents the token \<open>t\<close>: in the cookie, or in the authorization header
  while the cookie is absent or empty.\<close>

definition presents :: "token \<Rightarrow> token option \<Rightarrow> token option \<Rightarrow> bool" where
  "presents t cookie_token token =
     (cookie_token = Some t \<or> (falsy cookie_token \<and> token = Some t))"

text \<open>A role claim that \<open>TokenData\<close> accepts: absent, null or a string.\<close>

definition str_or_absent :: "json option \<Rightarrow> bool" where
  "str_or_absent role = (role \<noteq> Some JRefused)"

text \<open>A secret the hasher accepts: at most 4096 characters, none of them NUL.\<close>

definition acceptable :: "string \<Rightarrow> bool" where
  "acceptable secret = (py_len secret \<le> MAX_PASSWORD_SIZE \<and> CHR 0x00 \<notin> set secret)"

section \<open>Example values\<close>

definition example_cfg :: config where
  "example_cfg =
     \<lparr>SECRET_KEY = ''s3cret'', ALGORITHM = ''HS256'', ACCESS_TOKEN_EXPIRE_MINUTES = 10\<rparr>"

definition example_admin :: user where
  "example_admin =
     \<lparr>u_id = 1, u_name = ''A'', u_email = ''a@x.com'',
      u_password_hash = BcryptHash ''salt1'' ''Secret123'', u_role = Some ''admin'',
      u_created_at = 0, u_reset_token = None, u_reset_token_expires_at = None,
      u_updated_at = None\<rparr>"

definition example_bob :: user where
  "example_bob =
     \<lparr>u_id = 2, u_name = ''B'', u_email = ''b@x.com'',
      u_password_hash = BcryptHash ''salt2'' ''hunter2'', u_role = Some ''user'',
      u_created_at = 0, u_reset_token = None, u_reset_token_expires_at = None,
      u_updated_at = None\<rparr>"

definition example_users :: collection where
  "example_users = [example_admin, example_bob]"

text \<open>A document whose email is the empty string.\<close>

definition example_nameless :: user where
  "example_nameless =
     \<lparr>u_id = 3, u_name = ''N'', u_email = [],
      u_password_hash = BcryptHash ''salt3'' ''pw'', u_role = Some ''user'',
      u_created_at = 0, u_reset_token = None, u_reset_token_expires_at = None,
      u_updated_at = None\<rparr>"

text \<open>A document whose stored hash is not a bcrypt digest.\<close>

definition example_corrupt :: user where
  "example_corrupt =
     \<lparr>u_id = 4, u_name = ''C'', u_email = ''c@x.com'',
      u_password_hash = UnidentifiedHash ''not-a-hash'', u_role = Some ''user'',
      u_created_at = 0, u_reset_token = None, u_reset_token_expires_at = None,
      u_updated_at = None\<rparr>"

text \<open>A token signed under \<open>example_cfg\<close> that expires at time 700, with a string for
  its role; and one whose role is not a string.\<close>

definition example_token :: "string option \<Rightarrow> string \<Rightarrow> token" where
  "example_token s r =
     Jwt ''s3cret'' ''HS256'' \<lparr>p_sub = s, p_role = Some (JString r), p_exp = Some 700\<rparr>"

definition example_token_refused :: "string option \<Rightarrow> token" where
  "example_token_refused s =
     Jwt ''s3cret'' ''HS256'' \<lparr>p_sub = s, p_role = Some JRefused, p_exp = Some 700\<rparr>"

text \<open>\<open>example_users\<close> after b@x.com asked for a reset at time 100.\<close>

definition example_pending :: collection where
  "example_pending = fst (process_forgot_password ''b@x.com'' ''tok'' 100 example_users)"

text \<open>Two passwords of 73 bytes that differ in the last one only.\<close>

definition example_long_b :: string where
  "example_long_b = replicate 72 (CHR ''a'') @ ''b''"

definition example_long_c :: string where
  "example_long_c = replicate 72 (CHR ''a'') @ ''c''"

lemmas example_defs =
  example_cfg_def example_admin_def example_bob_def example_users_def example_nameless_def
  example_corrupt_def example_token_def example_token_refused_def

section \<open>Facts about the collection\<close>

lemma filter_update_first:
  assumes "\<And>x. P x \<Longrightarrow> \<not> Q x \<and> \<not> Q (f x)"
  shows "filter Q (update_first P f xs) = filter Q xs"
  using assms by (induction xs) auto

lemma filter_delete_first:
  assumes "\<And>x. P x \<Longrightarrow> \<not> Q x"
  shows "filter Q (delete_first P xs) = filter Q xs"
  using assms by (induction xs) auto

lemma list_all_update_first:
  assumes "list_all P xs" and "\<And>x. P x \<Longrightarrow> P (f x)"
  shows "list_all P (update_first flt f xs)"
  using assms by (induction xs) auto

lemma list_all_delete_first:
  assumes "list_all P xs"
  shows "list_all P (delete_first flt xs)"
  using assms by (induction xs) auto

lemma set_update_first:
  "set (update_first flt f xs) \<subseteq> set xs \<union> f ` set xs"
  by (induction xs) auto

text \<open>After an update of the first match, a query that the updated document answers, and
  that no document outside the update's filter answers, finds the updated document.\<close>

lemma find_after_update_first:
  assumes "find P xs = Some d" and "Q (f d)" and "\<forall>x\<in>set xs. Q x \<longrightarrow> P x"
  shows "find Q (update_first P f xs) = Some (f d)"
  using assms by (induction xs) (auto split: if_splits)

text \<open>With distinct ids, an update by id touches the one document of that id.\<close>

lemma update_first_by_id:
  "distinct (map u_id xs) \<Longrightarrow>
     update_first (\<lambda>d. u_id d = i) f xs = map (\<lambda>d. if u_id d = i then f d else d) xs"
proof (induction xs)
  case Nil
  then show ?case by simp
next
  case (Cons d ds)
  show ?case
  proof (cases "u_id d = i")
    case True
    with Cons.prems have "\<forall>x\<in>set ds. u_id x \<noteq> i" by (auto simp: image_iff)
    then have "map (\<lambda>d. if u_id d = i then f d else d) ds = ds"
      by (induction ds) auto
    with True show ?thesis by simp
  next
    case False
    with Cons show ?thesis by simp
  qed
qed

lemma token_unique_eq:
  assumes "token_unique token xs" "u \<in> set xs" "v \<in> set xs"
    "u_reset_token u = Some token" "u_reset_token v = Some token" "distinct (map u_id xs)"
  shows "u = v"
proof (rule ccontr)
  assume ne: "u \<noteq> v"
  let ?P = "\<lambda>u. u_reset_token u = Some token"
  from assms(6) have dx: "distinct xs" by (simp add: distinct_map)
  then have "distinct (filter ?P xs)" by simp
  moreover have "{u, v} \<subseteq> set (filter ?P xs)" using assms by auto
  ultimately have "card {u, v} \<le> length (filter ?P xs)"
    by (metis card_mono distinct_card List.finite_set)
  with ne assms(1) show False by (simp add: token_unique_def)
qed

section \<open>Facts about tokens and secrets\<close>

lemma decoded_not_falsy:
  "jwt_decode t key algs now = Inr p \<Longrightarrow> \<not> falsy (Some t)"
  by (cases t) (auto simp: jwt_decode_def)

text \<open>What \<open>get_current_user\<close> does with a token that decodes, wherever the request
  presents it.\<close>

lemma get_current_user_decoded:
  assumes "jwt_decode t (SECRET_KEY cfg) [ALGORITHM cfg] now = Inr p"
      and "presents t cookie_token token"
  shows "get_current_user cfg now cookie_token token users =
     (case p_sub p of
        None \<Rightarrow> (Inl credentials_exception, [])
      | Some username \<Rightarrow>
          (case TokenData username (p_role p) of
             Inl e \<Rightarrow> (Inl e, [])
           | Inr token_data \<Rightarrow>
               (case find_one (\<lambda>u. u_email u = td_username token_data) users of
                  None \<Rightarrow> (Inl credentials_exception, [FindByEmail (td_username token_data)])
                | Some user \<Rightarrow> (Inr user, [FindByEmail (td_username token_data)]))))"
proof -
  have nf: "\<not> falsy (Some t)" using assms(1) by (rule decoded_not_falsy)
  from assms(2) consider "cookie_token = Some t" | "falsy cookie_token" "token = Some t"
    by (auto simp: presents_def)
  then show ?thesis
  proof cases
    case 1
    with nf assms(1) show ?thesis by (simp add: get_current_user_def)
  next
    case 2
    with nf assms(1) show ?thesis by (simp add: get_current_user_def)
  qed
qed

lemma TokenData_accepts:
  "str_or_absent role \<Longrightarrow> \<exists>r. TokenData username role = Inr \<lparr>td_username = username, td_role = r\<rparr>"
  by (auto simp: TokenData_def str_or_absent_def split: option.splits json.splits)

lemma TokenData_refuses:
  "\<not> str_or_absent role \<Longrightarrow> TokenData username role = Inl ValidationError"
  by (simp add: TokenData_def str_or_absent_def)

lemma py_len_le_length: "py_len s \<le> length s"
  by (simp add: py_len_def)

lemma acceptable_short:
  "length s \<le> 4096 \<Longrightarrow> CHR 0x00 \<notin> set s \<Longrightarrow> acceptable s"
  using py_len_le_length [of s] by (simp add: acceptable_def MAX_PASSWORD_SIZE_def)

lemma bcrypt_secret_acceptable:
  "acceptable s \<Longrightarrow> bcrypt_secret s = Inr (take 72 s)"
  by (simp add: acceptable_def bcrypt_secret_def)

lemma bcrypt_secret_refused:
  "\<not> acceptable s \<Longrightarrow> bcrypt_secret s = Inl PasswordValueError"
  by (auto simp: acceptable_def bcrypt_secret_def)

lemma get_password_hash_acceptable:
  "acceptable s \<Longrightarrow> get_password_hash salt s = Inr (BcryptHash salt (take 72 s))"
  by (simp add: get_password_hash_def pwd_context_hash_def bcrypt_secret_acceptable)

lemma get_password_hash_refused:
  "\<not> acceptable s \<Longrightarrow> get_password_hash salt s = Inl PasswordValueError"
  by (simp add: get_password_hash_def pwd_context_hash_def bcrypt_secret_refused)

section \<open>The forgot-password response\<close>

text \<open>
  Claim C4. \<open>process_forgot_password\<close> answers the caller with the same flash message and
  the same redirect whether or not the email names a document of the collection: any two
  runs, on any two collections, with any tokens and times, give the same response.
\<close>

theorem forgot_password_response_independent:
  "snd (process_forgot_password email reset_token now users) =
     snd (process_forgot_password email reset_token' now' users')
   \<and> snd (process_forgot_password email reset_token now users) =
     redirect LOGIN_ROUTE 302
       ''If an account with that email exists, instructions to reset your password have been sent.''"
  by (simp add: process_forgot_password_def Let_def)

section \<open>An admin and their own account\<close>

text \<open>
  Claim C10. \<open>assign_admin\<close> and \<open>delete_user\<close> called with the email of the admin who
  calls them leave the collection as it was and answer with an error message. Whatever the
  target email, the documents that carry the admin's email are the same before and after.
\<close>

theorem admin_self_target_rejected:
  "assign_admin (u_email current_user) current_user now users =
     (users, redirect USER_MANAGEMENT_ROUTE 303 ''You cannot change your own role.'')
   \<and> delete_user (u_email current_user) current_user users =
     (users, redirect USER_MANAGEMENT_ROUTE 303 ''You cannot delete your own account.'')
   \<and> filter (\<lambda>u. u_email u = u_email current_user)
         (fst (assign_admin email current_user now users))
       = filter (\<lambda>u. u_email u = u_email current_user) users
   \<and> filter (\<lambda>u. u_email u = u_email current_user)
         (fst (delete_user email current_user users))
       = filter (\<lambda>u. u_email u = u_email current_user) users"
proof -
  have a: "assign_admin (u_email current_user) current_user now users =
     (users, redirect USER_MANAGEMENT_ROUTE 303 ''You cannot change your own role.'')"
    by (simp add: assign_admin_def)
  have d: "delete_user (u_email current_user) current_user users =
     (users, redirect USER_MANAGEMENT_ROUTE 303 ''You cannot delete your own account.'')"
    by (simp add: delete_user_def)
  have a': "filter (\<lambda>u. u_email u = u_email current_user)
              (fst (assign_admin email current_user now users))
       = filter (\<lambda>u. u_email u = u_email current_user) users"
  proof (cases "email = u_email current_user")
    case True
    then show ?thesis by (simp add: assign_admin_def)
  next
    case False
    have "filter (\<lambda>u. u_email u = u_email current_user)
            (update_first (\<lambda>u. u_email u = email)
               (\<lambda>u. u\<lparr>u_role := Some ''admin'', u_updated_at := Some now\<rparr>) users)
          = filter (\<lambda>u. u_email u = u_email current_user) users"
      using False by (intro filter_update_first) auto
    with False show ?thesis
      by (simp add: assign_admin_def update_one_def)
  qed
  have d': "filter (\<lambda>u. u_email u = u_email current_user)
              (fst (delete_user email current_user users))
       = filter (\<lambda>u. u_email u = u_email current_user) users"
  proof (cases "email = u_email current_user")
    case True
    then show ?thesis by (simp add: delete_user_def)
  next
    case False
    have "filter (\<lambda>u. u_email u = u_email current_user)
            (delete_first (\<lambda>u. u_email u = email) users)
          = filter (\<lambda>u. u_email u = u_email current_user) users"
      using False by (intro filter_delete_first) auto
    with False show ?thesis
      by (simp add: delete_user_def delete_one_def)
  qed
  from a d a' d' show ?thesis by blast
qed

section \<open>Where the token comes from\<close>

text \<open>
  Claim C3. When the cookie and the authorization header carry two different tokens, each
  valid (it decodes under the configured key and algorithm, its role is a string or
  absent, and its subject names a document), \<open>get_current_user\<close> returns the document
  the cookie's subject names. With no token in either place it raises
  \<open>credentials_exception\<close>.
\<close>

theorem cookie_token_takes_precedence:
  assumes "jwt_decode c (SECRET_KEY cfg) [ALGORITHM cfg] now = Inr pc"
      and "p_sub pc = Some ec"
      and "str_or_absent (p_role pc)"
      and "find_one (\<lambda>u. u_email u = ec) users = Some uc"
      and "jwt_decode h (SECRET_KEY cfg) [ALGORITHM cfg] now = Inr ph"
      and "p_sub ph = Some eh"
      and "str_or_absent (p_role ph)"
      and "find_one (\<lambda>u. u_email u = eh) users = Some uh"
      and "c \<noteq> h"
  shows "fst (get_current_user cfg now (Some c) (Some h) users) = Inr uc
         \<and> u_email uc = ec
         \<and> fst (get_current_user cfg now None None users) = Inl credentials_exception"
proof -
  have pr: "presents c (Some c) (Some h)" by (simp add: presents_def)
  from assms(3) obtain r where td: "TokenData ec (p_role pc) = Inr \<lparr>td_username = ec, td_role = r\<rparr>"
    using TokenData_accepts by blast
  have "fst (get_current_user cfg now (Some c) (Some h) users) = Inr uc"
    using get_current_user_decoded [OF assms(1) pr, of users] assms(2,4) td by simp
  moreover have "u_email uc = ec"
    using assms(4) by (auto simp: find_one_def find_Some_iff)
  moreover have "fst (get_current_user cfg now None None users) = Inl credentials_exception"
    by (simp add: get_current_user_def)
  ultimately show ?thesis by simp
qed

theorem cookie_token_takes_precedence_witness:
  "fst (get_current_user example_cfg 100
          (Some (example_token (Some ''b@x.com'') ''user''))
          (Some (example_token (Some ''a@x.com'') ''admin'')) example_users) = Inr example_bob
   \<and> u_email example_bob = ''b@x.com''
   \<and> fst (get_current_user example_cfg 100 None None example_users)
       = Inl credentials_exception"
  using cookie_token_takes_precedence
    [of "example_token (Some ''b@x.com'') ''user''" example_cfg 100
      "\<lparr>p_sub = Some ''b@x.com'', p_role = Some (JString ''user''), p_exp = Some 700\<rparr>"
      "''b@x.com''" example_users example_bob
      "example_token (Some ''a@x.com'') ''admin''"
      "\<lparr>p_sub = Some ''a@x.com'', p_role = Some (JString ''admin''), p_exp = Some 700\<rparr>"
      "''a@x.com''" example_admin]
  by (simp add: example_defs jwt_decode_def find_one_def str_or_absent_def)



text \<open>
  Claim C8, as the code has it. The subject check of \<open>get_current_user\<close> is
  \<^verbatim>\<open>username is None\<close>. A token that decodes and whose payload has no \<^verbatim>\<open>sub\<close> claim is
  rejected with \<open>credentials_exception\<close> before any call to the collection, in the cookie
  or in the header. A payload whose subject is the empty string passes that check. Then,
  when its role is a string or absent, the collection is asked for a document with the
  empty email, and the request is rejected only if there is none; when its role is of
  another kind, the request ends in \<^verbatim>\<open>ValidationError\<close> before any call.
\<close>

theorem subject_check_is_none_only:
  assumes "jwt_decode t (SECRET_KEY cfg) [ALGORITHM cfg] now = Inr p"
      and "presents t cookie_token token"
  shows "(p_sub p = None \<longrightarrow>
            get_current_user cfg now cookie_token token users = (Inl credentials_exception, []))
       \<and> (p_sub p = Some [] \<and> str_or_absent (p_role p) \<longrightarrow>
            get_current_user cfg now cookie_token token users =
              (case find_one (\<lambda>u. u_email u = []) users of
                 None \<Rightarrow> (Inl credentials_exception, [FindByEmail []])
               | Some user \<Rightarrow> (Inr user, [FindByEmail []])))
       \<and> (p_sub p = Some [] \<and> \<not> str_or_absent (p_role p) \<longrightarrow>
            get_current_user cfg now cookie_token token users = (Inl ValidationError, []))"
proof (intro conjI impI)
  assume "p_sub p = None"
  then show "get_current_user cfg now cookie_token token users = (Inl credentials_exception, [])"
    using get_current_user_decoded [OF assms, of users] by simp
next
  assume a: "p_sub p = Some [] \<and> str_or_absent (p_role p)"
  then obtain r where "TokenData [] (p_role p) = Inr \<lparr>td_username = [], td_role = r\<rparr>"
    using TokenData_accepts by blast
  with a show "get_current_user cfg now cookie_token token users =
      (case find_one (\<lambda>u. u_email u = []) users of
         None \<Rightarrow> (Inl credentials_exception, [FindByEmail []])
       | Some user \<Rightarrow> (Inr user, [FindByEmail []]))"
    using get_current_user_decoded [OF assms, of users] by (simp split: option.splits)
next
  assume a: "p_sub p = Some [] \<and> \<not> str_or_absent (p_role p)"
  then have "TokenData [] (p_role p) = Inl ValidationError"
    by (simp add: TokenData_refuses)
  with a show "get_current_user cfg now cookie_token token users = (Inl ValidationError, [])"
    using get_current_user_decoded [OF assms, of users] by simp
qed

text \<open>A token with no subject in the header, under an empty cookie; a token with the empty
  subject in the cookie; and one whose role is not a string, in the header.\<close>

theorem subject_check_is_none_only_witness:
  "get_current_user example_cfg 100 (Some (Opaque [])) (Some (example_token None ''user''))
     example_users
     = (Inl credentials_exception, [])
   \<and> get_current_user example_cfg 100 (Some (example_token (Some []) ''user'')) None
        example_users
     = (Inl credentials_exception, [FindByEmail []])
   \<and> get_current_user example_cfg 100 None (Some (example_token_refused (Some [])))
        (example_users @ [example_nameless])
     = (Inl ValidationError, [])"
  using
    subject_check_is_none_only
      [of "example_token None ''user''" example_cfg 100
        "\<lparr>p_sub = None, p_role = Some (JString ''user''), p_exp = Some 700\<rparr>"
        "Some (Opaque [])" "Some (example_token None ''user'')" example_users]
    subject_check_is_none_only
      [of "example_token (Some []) ''user''" example_cfg 100
        "\<lparr>p_sub = Some [], p_role = Some (JString ''user''), p_exp = Some 700\<rparr>"
        "Some (example_token (Some []) ''user'')" None example_users]
    subject_check_is_none_only
      [of "example_token_refused (Some [])" example_cfg 100
        "\<lparr>p_sub = Some [], p_role = Some JRefused, p_exp = Some 700\<rparr>"
        None "Some (example_token_refused (Some []))" "example_users @ [example_nameless]"]
  by (simp add: example_defs jwt_decode_def find_one_def str_or_absent_def presents_def)

text \<open>The claim as stated fails at a token whose subject is the empty string: the
  collection is queried, and where a document has the empty email the request is
  authenticated as that document.\<close>

theorem empty_subject_is_looked_up:
  "get_current_user example_cfg 100 (Some (example_token (Some []) ''user'')) None
     (example_users @ [example_nameless])
     = (Inr example_nameless, [FindByEmail []])"
  by (simp add: get_current_user_def jwt_decode_def find_one_def TokenData_def example_defs)

section \<open>The role that authorizes\<close>

text \<open>
  Claim C1, as the code has it. \<open>get_current_user\<close> takes the subject from the token,
  presented in the cookie or in the header, and returns the document stored under that
  email; \<open>verify_admin\<close> reads the role of that document. Of the role in the token only
  the kind is checked: when it is a string or absent, the check passes or fails by the role
  stored at the time of the request, whatever the token's role says; when it is of another
  kind the request ends in \<^verbatim>\<open>ValidationError\<close>. So a token issued before a promotion
  authorizes as admin right after it, with no new login.
\<close>

theorem admin_check_reads_stored_role:
  assumes "jwt_decode t (SECRET_KEY cfg) [ALGORITHM cfg] now = Inr p"
      and "presents t cookie_token token"
      and "p_sub p = Some e"
  shows "(str_or_absent (p_role p) \<and> find_one (\<lambda>u. u_email u = e) users = Some u \<longrightarrow>
            depends_verify_admin cfg now cookie_token token users =
              (if u_role u = Some ''admin'' then Inr u
               else Inl (HTTPException 403 ''Not enough permissions'' [])))
       \<and> (str_or_absent (p_role p) \<and> find_one (\<lambda>u. u_email u = e) users = None \<longrightarrow>
            depends_verify_admin cfg now cookie_token token users = Inl credentials_exception)
       \<and> (\<not> str_or_absent (p_role p) \<longrightarrow>
            depends_verify_admin cfg now cookie_token token users = Inl ValidationError)"
proof (intro conjI impI)
  assume a: "str_or_absent (p_role p) \<and> find_one (\<lambda>u. u_email u = e) users = Some u"
  then obtain r where "TokenData e (p_role p) = Inr \<lparr>td_username = e, td_role = r\<rparr>"
    using TokenData_accepts by blast
  with a assms(3) have "fst (get_current_user cfg now cookie_token token users) = Inr u"
    using get_current_user_decoded [OF assms(1,2), of users] by simp
  then show "depends_verify_admin cfg now cookie_token token users =
      (if u_role u = Some ''admin'' then Inr u
       else Inl (HTTPException 403 ''Not enough permissions'' []))"
    by (simp add: depends_verify_admin_def get_current_active_user_def verify_admin_def)
next
  assume a: "str_or_absent (p_role p) \<and> find_one (\<lambda>u. u_email u = e) users = None"
  then obtain r where "TokenData e (p_role p) = Inr \<lparr>td_username = e, td_role = r\<rparr>"
    using TokenData_accepts by blast
  with a assms(3)
  have "fst (get_current_user cfg now cookie_token token users) = Inl credentials_exception"
    using get_current_user_decoded [OF assms(1,2), of users] by simp
  then show "depends_verify_admin cfg now cookie_token token users = Inl credentials_exception"
    by (simp add: depends_verify_admin_def)
next
  assume "\<not> str_or_absent (p_role p)"
  then have "TokenData e (p_role p) = Inl ValidationError" by (rule TokenData_refuses)
  with assms(3) have "fst (get_current_user cfg now cookie_token token users) = Inl ValidationError"
    using get_current_user_decoded [OF assms(1,2), of users] by simp
  then show "depends_verify_admin cfg now cookie_token token users = Inl ValidationError"
    by (simp add: depends_verify_admin_def)
qed

text \<open>In the cookie, a token that embeds the role admin for a user stored with the role
  user is refused; in the header, a token that embeds the role user for the stored admin
  passes; a token whose role is not a string ends in \<^verbatim>\<open>ValidationError\<close>.\<close>

theorem admin_check_reads_stored_role_witness:
  "depends_verify_admin example_cfg 100 (Some (example_token (Some ''b@x.com'') ''admin''))
     None example_users
     = Inl (HTTPException 403 ''Not enough permissions'' [])
   \<and> depends_verify_admin example_cfg 100 None (Some (example_token (Some ''a@x.com'') ''user''))
       example_users
     = Inr example_admin
   \<and> depends_verify_admin example_cfg 100 None
       (Some (example_token_refused (Some ''a@x.com''))) example_users
     = Inl ValidationError"
  using
    admin_check_reads_stored_role
      [of "example_token (Some ''b@x.com'') ''admin''" example_cfg 100
        "\<lparr>p_sub = Some ''b@x.com'', p_role = Some (JString ''admin''), p_exp = Some 700\<rparr>"
        "Some (example_token (Some ''b@x.com'') ''admin'')" None
        "''b@x.com''" example_users example_bob]
    admin_check_reads_stored_role
      [of "example_token (Some ''a@x.com'') ''user''" example_cfg 100
        "\<lparr>p_sub = Some ''a@x.com'', p_role = Some (JString ''user''), p_exp = Some 700\<rparr>"
        None "Some (example_token (Some ''a@x.com'') ''user'')"
        "''a@x.com''" example_users example_admin]
    admin_check_reads_stored_role
      [of "example_token_refused (Some ''a@x.com'')" example_cfg 100
        "\<lparr>p_sub = Some ''a@x.com'', p_role = Some JRefused, p_exp = Some 700\<rparr>"
        None "Some (example_token_refused (Some ''a@x.com''))"
        "''a@x.com''" example_users example_admin]
  by (simp add: example_defs jwt_decode_def find_one_def str_or_absent_def presents_def)

text \<open>The claim as stated fails: b@x.com logs in at time 100 and gets a token with the
  role user; the admin promotes b@x.com at time 200; at time 300 the same token passes
  the admin check.\<close>

theorem promoted_user_passes_with_old_token:
  "login_for_api_token example_cfg ''b@x.com'' ''hunter2'' 100 example_users
     = Inr (example_token (Some ''b@x.com'') ''user'', ''bearer'')
   \<and> depends_verify_admin example_cfg 300 (Some (example_token (Some ''b@x.com'') ''user''))
        None (fst (assign_admin ''b@x.com'' example_admin 200 example_users))
     = Inr (example_bob\<lparr>u_role := Some ''admin'', u_updated_at := Some 200\<rparr>)"
proof -
  have acc: "acceptable ''hunter2''" by (rule acceptable_short) simp_all
  have "login_for_api_token example_cfg ''b@x.com'' ''hunter2'' 100 example_users
     = Inr (example_token (Some ''b@x.com'') ''user'', ''bearer'')"
    using bcrypt_secret_acceptable [OF acc]
    by (simp add: login_for_api_token_def create_access_token_def jwt_encode_def
        verify_password_def pwd_context_verify_def find_one_def example_defs)
  moreover have "depends_verify_admin example_cfg 300
        (Some (example_token (Some ''b@x.com'') ''user''))
        None (fst (assign_admin ''b@x.com'' example_admin 200 example_users))
     = Inr (example_bob\<lparr>u_role := Some ''admin'', u_updated_at := Some 200\<rparr>)"
    by (simp add: depends_verify_admin_def get_current_user_def TokenData_def
        get_current_active_user_def verify_admin_def assign_admin_def update_one_def
        jwt_decode_def find_one_def example_defs)
  ultimately show ?thesis by simp
qed

section \<open>Verifying a password\<close>

text \<open>
  Claim C5, as the code has it. \<open>verify_password\<close> hands its arguments to the hashing
  context and catches nothing. It returns a boolean when the plaintext is one the hasher
  accepts (at most 4096 characters, no NUL byte) and the hash is a well-formed bcrypt
  digest. Otherwise it raises to its caller: \<^verbatim>\<open>UnknownHashError\<close> for a hash the context
  cannot identify, \<^verbatim>\<open>ValueError\<close> for a malformed bcrypt hash, and
  \<^verbatim>\<open>PasswordValueError\<close> for a plaintext the hasher refuses. The login handler does not
  catch it either: whatever \<open>verify_password\<close> raises on the stored hash ends the login.
\<close>

theorem verify_password_outcomes:
  "(acceptable plain_password \<longrightarrow>
      verify_password plain_password (BcryptHash salt digested)
        = Inr (take 72 plain_password = digested))
   \<and> (\<not> acceptable plain_password \<longrightarrow>
      verify_password plain_password (BcryptHash salt digested) = Inl PasswordValueError)
   \<and> verify_password plain_password (UnidentifiedHash s) = Inl UnknownHashError
   \<and> (py_len plain_password \<le> MAX_PASSWORD_SIZE \<longrightarrow>
      verify_password plain_password (MalformedBcrypt s) = Inl ValueError)
   \<and> (py_len plain_password > MAX_PASSWORD_SIZE \<longrightarrow>
      verify_password plain_password (MalformedBcrypt s) = Inl PasswordValueError)
   \<and> (find_one (\<lambda>u. u_email u = username) users = Some user
        \<and> verify_password password (u_password_hash user) = Inl e \<longrightarrow>
        login_for_api_token cfg username password now users = Inl e)"
proof (intro conjI impI)
  assume "acceptable plain_password"
  then show "verify_password plain_password (BcryptHash salt digested)
      = Inr (take 72 plain_password = digested)"
    by (simp add: verify_password_def pwd_context_verify_def bcrypt_secret_acceptable)
next
  assume "\<not> acceptable plain_password"
  then show "verify_password plain_password (BcryptHash salt digested) = Inl PasswordValueError"
    by (simp add: verify_password_def pwd_context_verify_def bcrypt_secret_refused)
next
  show "verify_password plain_password (UnidentifiedHash s) = Inl UnknownHashError"
    by (simp add: verify_password_def pwd_context_verify_def)
next
  assume "py_len plain_password \<le> MAX_PASSWORD_SIZE"
  then show "verify_password plain_password (MalformedBcrypt s) = Inl ValueError"
    by (simp add: verify_password_def pwd_context_verify_def)
next
  assume "py_len plain_password > MAX_PASSWORD_SIZE"
  then show "verify_password plain_password (MalformedBcrypt s) = Inl PasswordValueError"
    by (simp add: verify_password_def pwd_context_verify_def)
next
  assume "find_one (\<lambda>u. u_email u = username) users = Some user
            \<and> verify_password password (u_password_hash user) = Inl e"
  then show "login_for_api_token cfg username password now users = Inl e"
    by (simp add: login_for_api_token_def)
qed

text \<open>The right password and a wrong one against a digest; a password with a NUL byte
  against the same digest; a malformed bcrypt hash; and a login for a user whose stored
  hash is no bcrypt hash.\<close>

theorem verify_password_outcomes_witness:
  "verify_password ''hunter2'' (BcryptHash ''salt2'' ''hunter2'') = Inr True
   \<and> verify_password ''hunter3'' (BcryptHash ''salt2'' ''hunter2'') = Inr False
   \<and> \<not> acceptable [CHR ''p'', CHR 0x00, CHR ''w'']
   \<and> verify_password [CHR ''p'', CHR 0x00, CHR ''w''] (BcryptHash ''salt2'' ''hunter2'')
       = Inl PasswordValueError
   \<and> verify_password ''hunter2'' (MalformedBcrypt ''$2b$garbage'') = Inl ValueError
   \<and> find_one (\<lambda>u. u_email u = ''c@x.com'') [example_admin, example_corrupt]
       = Some example_corrupt
   \<and> login_for_api_token example_cfg ''c@x.com'' ''pw'' 100 [example_admin, example_corrupt]
       = Inl UnknownHashError"
proof -
  have a1: "acceptable ''hunter2''" by (rule acceptable_short) simp_all
  have a2: "acceptable ''hunter3''" by (rule acceptable_short) simp_all
  have a3: "\<not> acceptable [CHR ''p'', CHR 0x00, CHR ''w'']" by (simp add: acceptable_def)
  have l1: "py_len ''hunter2'' \<le> MAX_PASSWORD_SIZE" using a1 by (simp add: acceptable_def)
  have f: "find_one (\<lambda>u. u_email u = ''c@x.com'') [example_admin, example_corrupt]
       = Some example_corrupt"
    by (simp add: find_one_def example_defs)
  have v: "verify_password ''pw'' (u_password_hash example_corrupt) = Inl UnknownHashError"
    by (simp add: verify_password_def pwd_context_verify_def example_defs)
  show ?thesis
    using a1 a2 a3 l1 f v
      verify_password_outcomes [of "''hunter2''" "''salt2''" "''hunter2''" "''$2b$garbage''"]
      verify_password_outcomes [of "''hunter3''" "''salt2''" "''hunter2''"]
      verify_password_outcomes
        [of "[CHR ''p'', CHR 0x00, CHR ''w'']" "''salt2''" "''hunter2''" _ "''c@x.com''"
          "[example_admin, example_corrupt]" example_corrupt "''pw''" UnknownHashError
          example_cfg 100]
    by simp
qed

text \<open>The claim as stated fails at a corrupt hash: the call raises.\<close>

theorem verify_password_raises_on_corrupt_hash:
  "verify_password ''hunter2'' (UnidentifiedHash ''not-a-hash'') = Inl UnknownHashError"
  by (simp add: verify_password_def pwd_context_verify_def)

section \<open>Hashing, then verifying\<close>

text \<open>
  Claim C6, as the code has it. \<open>get_password_hash\<close> accepts a password of at most 4096
  characters with no NUL byte and raises \<^verbatim>\<open>PasswordValueError\<close> on any other. For an
  accepted password, verifying it against its own hash returns true. For two accepted
  passwords, verifying the first against the hash of the second returns true exactly when
  the two agree on their first 72 bytes: so it returns false when they differ there, and
  true for two distinct passwords that differ only after the 72nd byte. The digest is
  symbolic, so the chance that bcrypt maps two different inputs to one digest is left out.
\<close>

theorem verify_after_hash:
  "(acceptable p \<longrightarrow> get_password_hash salt p = Inr (BcryptHash salt (take 72 p)))
   \<and> (\<not> acceptable p \<longrightarrow> get_password_hash salt p = Inl PasswordValueError)
   \<and> (get_password_hash salt p = Inr h \<longrightarrow> verify_password p h = Inr True)
   \<and> (get_password_hash salt p2 = Inr h \<and> acceptable p1 \<longrightarrow>
        verify_password p1 h = Inr (take 72 p1 = take 72 p2))"
proof (intro conjI impI)
  assume "acceptable p"
  then show "get_password_hash salt p = Inr (BcryptHash salt (take 72 p))"
    by (rule get_password_hash_acceptable)
next
  assume "\<not> acceptable p"
  then show "get_password_hash salt p = Inl PasswordValueError"
    by (rule get_password_hash_refused)
next
  assume h: "get_password_hash salt p = Inr h"
  then have acc: "acceptable p"
    using get_password_hash_refused [of p salt] by (cases "acceptable p") auto
  with h have "h = BcryptHash salt (take 72 p)"
    by (simp add: get_password_hash_acceptable)
  with acc show "verify_password p h = Inr True"
    by (simp add: verify_password_def pwd_context_verify_def bcrypt_secret_acceptable)
next
  assume a: "get_password_hash salt p2 = Inr h \<and> acceptable p1"
  then have acc: "acceptable p2"
    using get_password_hash_refused [of p2 salt] by (cases "acceptable p2") auto
  with a have "h = BcryptHash salt (take 72 p2)"
    by (simp add: get_password_hash_acceptable)
  with a show "verify_password p1 h = Inr (take 72 p1 = take 72 p2)"
    by (simp add: verify_password_def pwd_context_verify_def bcrypt_secret_acceptable)
qed

lemma example_long_acceptable:
  "acceptable example_long_b" "acceptable example_long_c"
  by (rule acceptable_short; simp add: example_long_b_def example_long_c_def)+

theorem verify_after_hash_witness:
  "get_password_hash ''salt5'' ''Secret123'' = Inr (BcryptHash ''salt5'' ''Secret123'')
   \<and> verify_password ''Secret123'' (BcryptHash ''salt5'' ''Secret123'') = Inr True
   \<and> verify_password ''Secret124'' (BcryptHash ''salt5'' ''Secret123'') = Inr False
   \<and> get_password_hash ''salt5'' [CHR ''p'', CHR 0x00, CHR ''w''] = Inl PasswordValueError"
proof -
  have a1: "acceptable ''Secret123''" by (rule acceptable_short) simp_all
  have a2: "acceptable ''Secret124''" by (rule acceptable_short) simp_all
  have a3: "\<not> acceptable [CHR ''p'', CHR 0x00, CHR ''w'']" by (simp add: acceptable_def)
  show ?thesis
    using a1 a2 a3
      verify_after_hash [of "''Secret123''" "''salt5''" "BcryptHash ''salt5'' ''Secret123''"
        "''Secret123''" "''Secret124''"]
      verify_after_hash [of "[CHR ''p'', CHR 0x00, CHR ''w'']" "''salt5''"]
    by simp
qed

text \<open>The claim as stated fails at two distinct passwords of 73 bytes that share their
  first 72: the one verifies against the hash of the other.\<close>

theorem distinct_long_passwords_verify:
  "example_long_b \<noteq> example_long_c
   \<and> get_password_hash ''salt5'' example_long_c
       = Inr (BcryptHash ''salt5'' (replicate 72 (CHR ''a'')))
   \<and> verify_password example_long_b (BcryptHash ''salt5'' (replicate 72 (CHR ''a'')))
       = Inr True"
proof -
  have "example_long_b \<noteq> example_long_c"
    by (simp add: example_long_b_def example_long_c_def)
  moreover have "get_password_hash ''salt5'' example_long_c
       = Inr (BcryptHash ''salt5'' (replicate 72 (CHR ''a'')))"
    using get_password_hash_acceptable [OF example_long_acceptable(2), of "''salt5''"]
    by (simp add: example_long_c_def)
  moreover have "verify_password example_long_b
        (BcryptHash ''salt5'' (replicate 72 (CHR ''a''))) = Inr True"
    using bcrypt_secret_acceptable [OF example_long_acceptable(1)]
    by (simp add: verify_password_def pwd_context_verify_def example_long_b_def)
  ultimately show ?thesis by simp
qed

section \<open>The roles written to the collection\<close>

lemma signup_role_invariant:
  "role_invariant users \<Longrightarrow>
     role_invariant (fst (post_signup fullname email password confirm_password salt now users))"
  by (simp add: post_signup_def role_invariant_def insert_one_def valid_role_def Let_def
      split: sum.splits)

lemma signup_new_role:
  "u \<in> set (fst (post_signup fullname email password confirm_password salt now users))
     \<Longrightarrow> u \<notin> set users \<Longrightarrow> u_role u = Some ''user''"
  by (auto simp: post_signup_def insert_one_def Let_def split: if_splits sum.splits)

text \<open>A signup that passes its two checks, with a password the hasher accepts, appends
  one document.\<close>

lemma signup_inserts:
  assumes "password = confirm_password"
      and "find_one (\<lambda>u. u_email u = email) users = None"
      and "acceptable password"
  shows "fst (post_signup fullname email password confirm_password salt now users) =
     users @ [\<lparr>u_id = new_object_id users, u_name = fullname, u_email = email,
               u_password_hash = BcryptHash salt (take 72 password),
               u_role = Some ''user'', u_created_at = now, u_reset_token = None,
               u_reset_token_expires_at = None, u_updated_at = None\<rparr>]"
  using assms
  by (simp add: post_signup_def insert_one_def get_password_hash_acceptable)

lemma update_user_role_invariant:
  "role_invariant users \<Longrightarrow>
     role_invariant (fst (update_user email current_user name new_email role now users))"
  by (auto simp: update_user_def role_invariant_def update_one_def Let_def valid_role_def
      intro!: list_all_update_first)

lemma update_user_new_role:
  assumes "u \<in> set (fst (update_user email current_user name new_email role now users))"
      and "u \<notin> set users"
  shows "u_role u = Some (coerced_role role)"
proof -
  let ?f = "\<lambda>u. u\<lparr>u_name := name, u_email := new_email,
               u_role := Some (if role \<notin> set [''user'', ''admin''] then ''user'' else role),
               u_updated_at := Some now\<rparr>"
  from assms have "u \<in> set (update_first (\<lambda>u. u_email u = email) ?f users)"
    by (auto simp: update_user_def update_one_def Let_def split: if_splits)
  with set_update_first [of "\<lambda>u. u_email u = email" ?f users] assms(2)
  have "u \<in> ?f ` set users" by blast
  then show ?thesis by (auto simp: coerced_role_def)
qed

text \<open>An update of an existing document, with no conflict on the new email, stores the
  coerced role in that document: the query by the new email finds it as updated.\<close>

lemma update_user_writes:
  assumes "find_one (\<lambda>u. u_email u = email) users = Some d"
      and "email = new_email \<or> find_one (\<lambda>u. u_email u = new_email) users = None"
  shows "find_one (\<lambda>u. u_email u = new_email)
           (fst (update_user email current_user name new_email role now users)) =
         Some (d\<lparr>u_name := name, u_email := new_email, u_role := Some (coerced_role role),
                 u_updated_at := Some now\<rparr>)"
proof -
  let ?f = "\<lambda>u. u\<lparr>u_name := name, u_email := new_email,
               u_role := Some (if role \<notin> set [''user'', ''admin''] then ''user'' else role),
               u_updated_at := Some now\<rparr>"
  have q: "\<forall>x\<in>set users. u_email x = new_email \<longrightarrow> u_email x = email"
    using assms(2) by (auto simp: find_one_def find_None_iff)
  have "find (\<lambda>u. u_email u = new_email) (update_first (\<lambda>u. u_email u = email) ?f users)
          = Some (?f d)"
    using assms(1) q by (intro find_after_update_first) (simp_all add: find_one_def)
  moreover have "fst (update_user email current_user name new_email role now users)
      = update_first (\<lambda>u. u_email u = email) ?f users"
    using assms(2) by (auto simp: update_user_def update_one_def Let_def)
  ultimately show ?thesis
    by (simp add: find_one_def coerced_role_def)
qed

lemma assign_admin_role_invariant:
  "role_invariant users \<Longrightarrow> role_invariant (fst (assign_admin email current_user now users))"
  by (auto simp: assign_admin_def role_invariant_def update_one_def Let_def valid_role_def
      intro!: list_all_update_first)

lemma delete_user_role_invariant:
  "role_invariant users \<Longrightarrow> role_invariant (fst (delete_user email current_user users))"
  by (auto simp: delete_user_def role_invariant_def delete_one_def Let_def
      intro!: list_all_delete_first)

lemma forgot_password_role_invariant:
  "role_invariant users \<Longrightarrow>
     role_invariant (fst (process_forgot_password email reset_token now users))"
  by (auto simp: process_forgot_password_def role_invariant_def update_one_def Let_def
      valid_role_def intro!: list_all_update_first split: option.splits)

lemma reset_password_role_invariant:
  "role_invariant users \<Longrightarrow>
     role_invariant
       (fst (reset_password_post token new_password confirm_password salt now users))"
  by (auto simp: reset_password_post_def role_invariant_def update_one_def Let_def
      valid_role_def intro!: list_all_update_first split: option.splits sum.splits)

text \<open>
  Claim C9. A signup that passes its checks appends one document, with the role user, and
  no signup adds a document with another role. An \<open>update_user\<close> of an existing document,
  with no conflict on the new email, stores in that document the submitted role when that
  is user or admin, and the role user otherwise; no \<open>update_user\<close> writes another role.
  Every handler that writes to the collection keeps the invariant that each document's
  role is user or admin.
\<close>

theorem roles_written_are_valid:
  "(password = confirm_password \<and> find_one (\<lambda>u. u_email u = email) users = None
      \<and> acceptable password \<longrightarrow>
      fst (post_signup fullname email password confirm_password salt now users) =
        users @ [\<lparr>u_id = new_object_id users, u_name = fullname, u_email = email,
                  u_password_hash = BcryptHash salt (take 72 password),
                  u_role = Some ''user'', u_created_at = now, u_reset_token = None,
                  u_reset_token_expires_at = None, u_updated_at = None\<rparr>])
   \<and> (\<forall>u \<in> set (fst (post_signup fullname email password confirm_password salt now users)).
       u \<notin> set users \<longrightarrow> u_role u = Some ''user'')
   \<and> (find_one (\<lambda>u. u_email u = email) users = Some d
        \<and> (email = new_email \<or> find_one (\<lambda>u. u_email u = new_email) users = None) \<longrightarrow>
        find_one (\<lambda>u. u_email u = new_email)
          (fst (update_user email current_user name new_email role now users)) =
        Some (d\<lparr>u_name := name, u_email := new_email, u_role := Some (coerced_role role),
                u_updated_at := Some now\<rparr>))
   \<and> (\<forall>u \<in> set (fst (update_user email current_user name new_email role now users)).
       u \<notin> set users \<longrightarrow> u_role u = Some (coerced_role role))
   \<and> (role_invariant users \<longrightarrow>
         role_invariant
           (fst (post_signup fullname email password confirm_password salt now users))
       \<and> role_invariant (fst (update_user email current_user name new_email role now users))
       \<and> role_invariant (fst (assign_admin email current_user now users))
       \<and> role_invariant (fst (delete_user email current_user users))
       \<and> role_invariant (fst (process_forgot_password email reset_token now users))
       \<and> role_invariant
           (fst (reset_password_post token password confirm_password salt now users)))"
proof (intro conjI ballI impI)
  assume "password = confirm_password \<and> find_one (\<lambda>u. u_email u = email) users = None
      \<and> acceptable password"
  then show "fst (post_signup fullname email password confirm_password salt now users) =
        users @ [\<lparr>u_id = new_object_id users, u_name = fullname, u_email = email,
                  u_password_hash = BcryptHash salt (take 72 password),
                  u_role = Some ''user'', u_created_at = now, u_reset_token = None,
                  u_reset_token_expires_at = None, u_updated_at = None\<rparr>]"
    using signup_inserts by blast
next
  fix u
  assume "u \<in> set (fst (post_signup fullname email password confirm_password salt now users))"
    and "u \<notin> set users"
  then show "u_role u = Some ''user''" by (rule signup_new_role)
next
  assume "find_one (\<lambda>u. u_email u = email) users = Some d
        \<and> (email = new_email \<or> find_one (\<lambda>u. u_email u = new_email) users = None)"
  then show "find_one (\<lambda>u. u_email u = new_email)
          (fst (update_user email current_user name new_email role now users)) =
        Some (d\<lparr>u_name := name, u_email := new_email, u_role := Some (coerced_role role),
                u_updated_at := Some now\<rparr>)"
    using update_user_writes by blast
next
  fix u
  assume "u \<in> set (fst (update_user email current_user name new_email role now users))"
    and "u \<notin> set users"
  then show "u_role u = Some (coerced_role role)"
    by (rule update_user_new_role)
qed (simp_all add: signup_role_invariant update_user_role_invariant
      assign_admin_role_invariant delete_user_role_invariant forgot_password_role_invariant
      reset_password_role_invariant)

text \<open>c@x.com signs up; and the admin submits the role root for the account a@x.com,
  stored with the role admin, which becomes user.\<close>

theorem roles_written_are_valid_witness:
  "role_invariant example_users
   \<and> find_one (\<lambda>u. u_email u = ''c@x.com'') example_users = None
   \<and> fst (post_signup ''C'' ''c@x.com'' ''pw'' ''pw'' ''salt4'' 50 example_users)
       = example_users @
           [\<lparr>u_id = 3, u_name = ''C'', u_email = ''c@x.com'',
             u_password_hash = BcryptHash ''salt4'' ''pw'', u_role = Some ''user'',
             u_created_at = 50, u_reset_token = None, u_reset_token_expires_at = None,
             u_updated_at = None\<rparr>]
   \<and> find_one (\<lambda>u. u_email u = ''a@x.com'') example_users = Some example_admin
   \<and> u_role example_admin = Some ''admin''
   \<and> find_one (\<lambda>u. u_email u = ''a@x.com'')
         (fst (update_user ''a@x.com'' example_admin ''Al'' ''a@x.com'' ''root'' 50
                example_users))
       = Some (example_admin\<lparr>u_name := ''Al'', u_email := ''a@x.com'',
                             u_role := Some ''user'', u_updated_at := Some 50\<rparr>)
   \<and> role_invariant
       (fst (post_signup ''C'' ''c@x.com'' ''pw'' ''pw'' ''salt4'' 50 example_users))
   \<and> role_invariant
       (fst (update_user ''a@x.com'' example_admin ''Al'' ''a@x.com'' ''root'' 50
              example_users))"
proof -
  have acc: "acceptable ''pw''" by (rule acceptable_short) simp_all
  have inv: "role_invariant example_users"
    by (simp add: role_invariant_def valid_role_def example_defs)
  have f1: "find_one (\<lambda>u. u_email u = ''c@x.com'') example_users = None"
    by (simp add: find_one_def example_defs)
  have f2: "find_one (\<lambda>u. u_email u = ''a@x.com'') example_users = Some example_admin"
    by (simp add: find_one_def example_defs)
  have r: "u_role example_admin = Some ''admin''" by (simp add: example_defs)
  have n: "new_object_id example_users = 3"
    by (simp add: new_object_id_def example_defs)
  have c: "coerced_role ''root'' = ''user''" by (simp add: coerced_role_def)
  note signup = roles_written_are_valid
        [where password = "''pw''" and confirm_password = "''pw''" and email = "''c@x.com''"
           and users = example_users and fullname = "''C''" and salt = "''salt4''"
           and now = 50 and d = example_admin and new_email = "''c@x.com''"
           and current_user = example_admin and name = "''C''" and role = "''user''"
           and reset_token = "''t''" and token = "''t''"]
  note update = roles_written_are_valid
        [where password = "''pw''" and confirm_password = "''pw''" and email = "''a@x.com''"
           and users = example_users and fullname = "''C''" and salt = "''salt4''"
           and now = 50 and d = example_admin and new_email = "''a@x.com''"
           and current_user = example_admin and name = "''Al''" and role = "''root''"
           and reset_token = "''t''" and token = "''t''"]
  have "fst (post_signup ''C'' ''c@x.com'' ''pw'' ''pw'' ''salt4'' 50 example_users)
       = example_users @
           [\<lparr>u_id = new_object_id example_users, u_name = ''C'', u_email = ''c@x.com'',
             u_password_hash = BcryptHash ''salt4'' (take 72 ''pw''), u_role = Some ''user'',
             u_created_at = 50, u_reset_token = None, u_reset_token_expires_at = None,
             u_updated_at = None\<rparr>]"
    using signup acc f1 by blast
  then have s_eq: "fst (post_signup ''C'' ''c@x.com'' ''pw'' ''pw'' ''salt4'' 50 example_users)
       = example_users @
           [\<lparr>u_id = 3, u_name = ''C'', u_email = ''c@x.com'',
             u_password_hash = BcryptHash ''salt4'' ''pw'', u_role = Some ''user'',
             u_created_at = 50, u_reset_token = None, u_reset_token_expires_at = None,
             u_updated_at = None\<rparr>]"
    by (simp add: n)
  have s_inv: "role_invariant
       (fst (post_signup ''C'' ''c@x.com'' ''pw'' ''pw'' ''salt4'' 50 example_users))"
    using signup inv by blast
  have "find_one (\<lambda>u. u_email u = ''a@x.com'')
         (fst (update_user ''a@x.com'' example_admin ''Al'' ''a@x.com'' ''root'' 50
                example_users))
       = Some (example_admin\<lparr>u_name := ''Al'', u_email := ''a@x.com'',
                             u_role := Some (coerced_role ''root''),
                             u_updated_at := Some 50\<rparr>)"
    using update f2 by blast
  then have u_eq: "find_one (\<lambda>u. u_email u = ''a@x.com'')
         (fst (update_user ''a@x.com'' example_admin ''Al'' ''a@x.com'' ''root'' 50
                example_users))
       = Some (example_admin\<lparr>u_name := ''Al'', u_email := ''a@x.com'',
                             u_role := Some ''user'', u_updated_at := Some 50\<rparr>)"
    by (simp only: c)
  have u_inv: "role_invariant
       (fst (update_user ''a@x.com'' example_admin ''Al'' ''a@x.com'' ''root'' 50
              example_users))"
    using update inv by blast
  from inv f1 f2 r s_eq s_inv u_eq u_inv show ?thesis by blast
qed

section \<open>Consuming a reset token\<close>

lemma reset_succeeded_iff:
  "reset_succeeded (reset_password_post token np cp salt now users) \<longleftrightarrow>
     np = cp \<and> find_one (reset_filter token now) users \<noteq> None \<and> acceptable np"
proof (cases "np = cp")
  case False
  then show ?thesis
    by (simp add: reset_succeeded_def reset_password_post_def redirect_def)
next
  case True
  show ?thesis
  proof (cases "acceptable np")
    case acc: True
    show ?thesis
      using \<open>np = cp\<close> acc get_password_hash_acceptable [OF acc, of salt]
      by (auto simp: reset_succeeded_def reset_password_post_def redirect_def
          split: option.splits)
  next
    case nacc: False
    show ?thesis
      using \<open>np = cp\<close> nacc get_password_hash_refused [OF nacc, of salt]
      by (auto simp: reset_succeeded_def reset_password_post_def redirect_def
          split: option.splits)
  qed
qed

lemma reset_succeeds_only_if:
  assumes "reset_succeeded (reset_password_post token np cp salt now users)"
  shows "np = cp \<and> (\<exists>u\<in>set users. u_reset_token u = Some token \<and>
           (\<exists>e. u_reset_token_expires_at u = Some e \<and> now < e))"
proof -
  from assms obtain u where "np = cp" and f: "find (reset_filter token now) users = Some u"
    by (auto simp: reset_succeeded_iff find_one_def)
  from f have "u \<in> set users" and "reset_filter token now u"
    by (auto simp: find_Some_iff)
  then show ?thesis using \<open>np = cp\<close>
    by (auto simp: reset_filter_def split: option.splits)
qed

lemma reset_no_match:
  assumes "\<forall>u\<in>set users. \<not> reset_filter token now u"
  shows "reset_password_post token np np salt now users
           = (users, Inr invalid_or_expired, [FindByResetToken token now])"
proof -
  from assms have "find (reset_filter token now) users = None"
    by (simp add: find_None_iff)
  then show ?thesis
    by (simp add: reset_password_post_def find_one_def invalid_or_expired_def)
qed

lemma reset_mismatch:
  "np \<noteq> cp \<Longrightarrow>
     reset_password_post token np cp salt now users =
       (users,
        Inr (redirect (RESET_PASSWORD_ROUTE @ ''?token='' @ token) 302
               ''Passwords do not match.''),
        [])"
  by (simp add: reset_password_post_def)

lemma reset_effect:
  assumes "unique_ids users"
      and "reset_succeeded (reset_password_post token np cp salt now users)"
  shows "\<exists>u\<in>set users. reset_filter token now u \<and>
           fst (reset_password_post token np cp salt now users) =
             map (\<lambda>d. if u_id d = u_id u
                       then consumed (BcryptHash salt (take 72 np)) now d else d) users
           \<and> snd (snd (reset_password_post token np cp salt now users)) =
               [FindByResetToken token now, UpdateById (u_id u) reset_keys]"
proof -
  from assms(2) obtain u where eq: "np = cp" and acc: "acceptable np"
    and f: "find (reset_filter token now) users = Some u"
    by (auto simp: reset_succeeded_iff find_one_def)
  from f have u: "u \<in> set users" "reset_filter token now u"
    by (auto simp: find_Some_iff)
  have r: "reset_password_post token np cp salt now users =
      (update_first (\<lambda>d. u_id d = u_id u) (consumed (BcryptHash salt (take 72 np)) now) users,
       Inr (redirect LOGIN_ROUTE 302
              ''Your password has been reset successfully. Please log in.''),
       [FindByResetToken token now, UpdateById (u_id u) reset_keys])"
    using eq f acc
    by (simp add: reset_password_post_def find_one_def update_one_def
        get_password_hash_acceptable consumed_def [abs_def])
  have "update_first (\<lambda>d. u_id d = u_id u) (consumed (BcryptHash salt (take 72 np)) now) users
      = map (\<lambda>d. if u_id d = u_id u
                  then consumed (BcryptHash salt (take 72 np)) now d else d) users"
    using assms(1) by (simp add: unique_ids_def update_first_by_id)
  with r u show ?thesis by auto
qed

lemma consumed_token_matches_nowhere:
  assumes ids: "unique_ids users" and uniq: "token_unique token users"
      and u: "u \<in> set users" "reset_filter token now u"
  shows "\<forall>d\<in>set (map (\<lambda>d. if u_id d = u_id u then consumed h now d else d) users).
           \<not> reset_filter token now2 d"
proof
  fix d' assume "d' \<in> set (map (\<lambda>d. if u_id d = u_id u then consumed h now d else d) users)"
  then obtain d where d: "d \<in> set users"
    and d': "d' = (if u_id d = u_id u then consumed h now d else d)" by auto
  show "\<not> reset_filter token now2 d'"
  proof (cases "u_id d = u_id u")
    case True
    with d' show ?thesis by (simp add: consumed_def reset_filter_def)
  next
    case False
    then have "d \<noteq> u" by auto
    moreover have "u_reset_token u = Some token" using u(2) by (simp add: reset_filter_def)
    ultimately have "u_reset_token d \<noteq> Some token"
      using token_unique_eq [OF uniq d u(1)] ids by (auto simp: unique_ids_def)
    with False d' show ?thesis by (simp add: reset_filter_def)
  qed
qed

text \<open>
  Claim C2, as the code has it. \<open>reset_password_post\<close> resets a password exactly when the
  two passwords typed agree, some document stores the supplied token with an expiry after
  the current time, and the hasher accepts the new password. Then it sends the collection
  one lookup and one update, whose \<^verbatim>\<open>$set\<close> names the hash, the token and the expiry
  together; in a collection with distinct ids that update changes one document only, which
  gets the new hash and loses its token and expiry. After that, where no second document
  holds the same token, a call with the same token, at any time and with any passwords,
  leaves the collection as it is and sends no update: it answers with the one
  invalid-or-expired response when its two passwords agree, and with the response for
  passwords that do not match, before any lookup, when they differ.
\<close>

theorem reset_token_single_use:
  "(reset_succeeded (reset_password_post token np cp salt now users) \<longleftrightarrow>
      np = cp \<and> acceptable np
      \<and> (\<exists>u\<in>set users. u_reset_token u = Some token \<and>
            (\<exists>e. u_reset_token_expires_at u = Some e \<and> now < e)))
   \<and> (unique_ids users \<and> reset_succeeded (reset_password_post token np cp salt now users) \<longrightarrow>
        (\<exists>u\<in>set users. reset_filter token now u \<and>
           fst (reset_password_post token np cp salt now users) =
             map (\<lambda>d. if u_id d = u_id u
                       then consumed (BcryptHash salt (take 72 np)) now d else d) users
           \<and> snd (snd (reset_password_post token np cp salt now users)) =
               [FindByResetToken token now, UpdateById (u_id u) reset_keys]))
   \<and> (unique_ids users \<and> token_unique token users
        \<and> reset_succeeded (reset_password_post token np cp salt now users) \<longrightarrow>
        (\<forall>np2 cp2 salt2 now2.
           reset_password_post token np2 cp2 salt2 now2
             (fst (reset_password_post token np cp salt now users))
           = (fst (reset_password_post token np cp salt now users),
              (if np2 = cp2 then Inr invalid_or_expired
               else Inr (redirect (RESET_PASSWORD_ROUTE @ ''?token='' @ token) 302
                           ''Passwords do not match.'')),
              (if np2 = cp2 then [FindByResetToken token now2] else []))))"
proof (intro conjI impI allI)
  show "reset_succeeded (reset_password_post token np cp salt now users) \<longleftrightarrow>
      np = cp \<and> acceptable np
      \<and> (\<exists>u\<in>set users. u_reset_token u = Some token \<and>
            (\<exists>e. u_reset_token_expires_at u = Some e \<and> now < e))"
  proof
    assume s: "reset_succeeded (reset_password_post token np cp salt now users)"
    then have "acceptable np" using reset_succeeded_iff by blast
    with reset_succeeds_only_if [OF s] show "np = cp \<and> acceptable np
      \<and> (\<exists>u\<in>set users. u_reset_token u = Some token \<and>
            (\<exists>e. u_reset_token_expires_at u = Some e \<and> now < e))" by blast
  next
    assume a: "np = cp \<and> acceptable np
      \<and> (\<exists>u\<in>set users. u_reset_token u = Some token \<and>
            (\<exists>e. u_reset_token_expires_at u = Some e \<and> now < e))"
    then obtain u where "u \<in> set users" "reset_filter token now u"
      by (auto simp: reset_filter_def)
    then have "find_one (reset_filter token now) users \<noteq> None"
      by (auto simp: find_one_def find_None_iff)
    with a show "reset_succeeded (reset_password_post token np cp salt now users)"
      using reset_succeeded_iff by blast
  qed
next
  assume "unique_ids users \<and> reset_succeeded (reset_password_post token np cp salt now users)"
  then show "\<exists>u\<in>set users. reset_filter token now u \<and>
           fst (reset_password_post token np cp salt now users) =
             map (\<lambda>d. if u_id d = u_id u
                       then consumed (BcryptHash salt (take 72 np)) now d else d) users
           \<and> snd (snd (reset_password_post token np cp salt now users)) =
               [FindByResetToken token now, UpdateById (u_id u) reset_keys]"
    using reset_effect by blast
next
  fix np2 cp2 salt2 now2
  assume a: "unique_ids users \<and> token_unique token users
        \<and> reset_succeeded (reset_password_post token np cp salt now users)"
  let ?users' = "fst (reset_password_post token np cp salt now users)"
  from a reset_effect [of users token np cp salt now]
  obtain u where u: "u \<in> set users" "reset_filter token now u"
    and eq: "?users' =
      map (\<lambda>d. if u_id d = u_id u
                then consumed (BcryptHash salt (take 72 np)) now d else d) users"
    by blast
  from a u have nm: "\<forall>d\<in>set ?users'. \<not> reset_filter token now2 d"
    unfolding eq by (intro consumed_token_matches_nowhere) simp_all
  show "reset_password_post token np2 cp2 salt2 now2 ?users'
           = (?users',
              (if np2 = cp2 then Inr invalid_or_expired
               else Inr (redirect (RESET_PASSWORD_ROUTE @ ''?token='' @ token) 302
                           ''Passwords do not match.'')),
              (if np2 = cp2 then [FindByResetToken token now2] else []))"
  proof (cases "np2 = cp2")
    case True
    with nm show ?thesis by (simp add: reset_no_match)
  next
    case False
    then show ?thesis by (simp add: reset_mismatch)
  qed
qed

lemma example_pending_eq:
  "example_pending =
     [example_admin,
      example_bob\<lparr>u_reset_token := Some ''tok'', u_reset_token_expires_at := Some 3700,
                  u_updated_at := Some 100\<rparr>]"
  by (simp add: example_pending_def process_forgot_password_def update_one_def find_one_def
      example_defs)

lemma example_reset:
  "reset_password_post ''tok'' ''n3w'' ''n3w'' ''salt9'' 200 example_pending =
     ([example_admin,
       example_bob\<lparr>u_password_hash := BcryptHash ''salt9'' ''n3w'',
                   u_updated_at := Some 200\<rparr>],
      Inr (redirect LOGIN_ROUTE 302
             ''Your password has been reset successfully. Please log in.''),
      [FindByResetToken ''tok'' 200, UpdateById 2 reset_keys])"
proof -
  have acc: "acceptable ''n3w''" by (rule acceptable_short) simp_all
  show ?thesis
    using get_password_hash_acceptable [OF acc, of "''salt9''"]
    by (simp add: example_pending_eq reset_password_post_def reset_filter_def find_one_def
        update_one_def example_defs)
qed

text \<open>b@x.com consumes the token at time 200 and tries it again at time 300.\<close>

theorem reset_token_single_use_witness:
  "unique_ids example_pending \<and> token_unique ''tok'' example_pending
   \<and> reset_succeeded (reset_password_post ''tok'' ''n3w'' ''n3w'' ''salt9'' 200 example_pending)
   \<and> reset_password_post ''tok'' ''n3w'' ''n3w'' ''salt9'' 200 example_pending
       = ([example_admin,
           example_bob\<lparr>u_password_hash := BcryptHash ''salt9'' ''n3w'',
                       u_updated_at := Some 200\<rparr>],
          Inr (redirect LOGIN_ROUTE 302
                 ''Your password has been reset successfully. Please log in.''),
          [FindByResetToken ''tok'' 200, UpdateById 2 reset_keys])
   \<and> reset_password_post ''tok'' ''again'' ''again'' ''salt10'' 300
        (fst (reset_password_post ''tok'' ''n3w'' ''n3w'' ''salt9'' 200 example_pending))
       = (fst (reset_password_post ''tok'' ''n3w'' ''n3w'' ''salt9'' 200 example_pending),
          Inr invalid_or_expired, [FindByResetToken ''tok'' 300])"
proof -
  let ?r = "reset_password_post ''tok'' ''n3w'' ''n3w'' ''salt9'' 200 example_pending"
  have ids: "unique_ids example_pending"
    by (simp add: example_pending_eq unique_ids_def example_defs)
  have uniq: "token_unique ''tok'' example_pending"
    by (simp add: example_pending_eq token_unique_def example_defs)
  have ok: "reset_succeeded ?r"
    by (simp add: example_reset reset_succeeded_def)
  from reset_token_single_use [of "''tok''" "''n3w''" "''n3w''" "''salt9''" 200 example_pending]
    ids uniq ok
  have again: "\<forall>np2 cp2 salt2 now2.
      reset_password_post ''tok'' np2 cp2 salt2 now2 (fst ?r)
        = (fst ?r,
           (if np2 = cp2 then Inr invalid_or_expired
            else Inr (redirect (RESET_PASSWORD_ROUTE @ ''?token='' @ ''tok'') 302
                        ''Passwords do not match.'')),
           (if np2 = cp2 then [FindByResetToken ''tok'' now2] else []))"
    by blast
  have "reset_password_post ''tok'' ''again'' ''again'' ''salt10'' 300 (fst ?r)
      = (fst ?r, Inr invalid_or_expired, [FindByResetToken ''tok'' 300])"
    using again [rule_format, of "''again''" "''again''" "''salt10''" 300] by simp
  with ids uniq ok example_reset show ?thesis by blast
qed

text \<open>The claim as stated fails at a second call whose two passwords differ: after the
  reset at time 200, the same token with two different passwords is answered with the
  response for passwords that do not match, not with the invalid-or-expired one.\<close>

theorem second_call_with_mismatch_is_not_generic:
  "reset_succeeded (reset_password_post ''tok'' ''n3w'' ''n3w'' ''salt9'' 200 example_pending)
   \<and> fst (snd (reset_password_post ''tok'' ''again'' ''agian'' ''salt10'' 300
                 (fst (reset_password_post ''tok'' ''n3w'' ''n3w'' ''salt9'' 200
                        example_pending))))
       = Inr \<lparr>status_code = 302, url = ''/reset-password?token=tok'',
              flash = Some ''Passwords do not match.''\<rparr>
   \<and> Inr \<lparr>status_code = 302, url = ''/reset-password?token=tok'',
           flash = Some ''Passwords do not match.''\<rparr>
       \<noteq> (Inr invalid_or_expired :: exn + response)"
proof -
  have q: "quote ''/reset-password?token=tok'' = ''/reset-password?token=tok''"
    by (simp add: quote_def unreserved_def redirect_safe_def)
  have "reset_succeeded
      (reset_password_post ''tok'' ''n3w'' ''n3w'' ''salt9'' 200 example_pending)"
    by (simp add: example_reset reset_succeeded_def)
  moreover have "fst (snd (reset_password_post ''tok'' ''again'' ''agian'' ''salt10'' 300
                 (fst (reset_password_post ''tok'' ''n3w'' ''n3w'' ''salt9'' 200
                        example_pending))))
       = Inr \<lparr>status_code = 302, url = ''/reset-password?token=tok'',
              flash = Some ''Passwords do not match.''\<rparr>"
    using q by (simp add: reset_password_post_def redirect_def RESET_PASSWORD_ROUTE_def)
  moreover have "Inr \<lparr>status_code = 302, url = ''/reset-password?token=tok'',
           flash = Some ''Passwords do not match.''\<rparr>
       \<noteq> (Inr invalid_or_expired :: exn + response)"
    by (simp add: invalid_or_expired_def redirect_def)
  ultimately show ?thesis by blast
qed

text \<open>A token with a space in it is percent-encoded in the target of that response.\<close>

lemma quote_example: "quote ''a b'' = ''a%20b''"
  by (simp add: quote_def unreserved_def redirect_safe_def hex_digit_def)

end
